theory Spec2Isabelle
  imports Complex_Main
begin

section \<open>Strings\<close>

text \<open>
  A JavaScript string is a sequence of UTF-16 code units. It is modelled as the list of
  its code units, each a natural number; \<open>js\<close> turns an ASCII literal of the source
  into that list.
\<close>

type_synonym jsstring = "nat list"

definition js :: "string \<Rightarrow> jsstring" where
  "js s = map of_char s"

text \<open>
  The characters removed by \<open>String.prototype.trim\<close>: the WhiteSpace and
  LineTerminator code points of ECMAScript, all of them in the basic plane.
\<close>

definition isWhiteSpace :: "nat \<Rightarrow> bool" where
  "isWhiteSpace c \<longleftrightarrow>
     c = 0x09 \<or> c = 0x0A \<or> c = 0x0B \<or> c = 0x0C \<or> c = 0x0D \<or> c = 0x20 \<or> c = 0xA0 \<or>
     c = 0x1680 \<or> (0x2000 \<le> c \<and> c \<le> 0x200A) \<or> c = 0x2028 \<or> c = 0x2029 \<or>
     c = 0x202F \<or> c = 0x205F \<or> c = 0x3000 \<or> c = 0xFEFF"

definition trim :: "jsstring \<Rightarrow> jsstring" where
  "trim s = rev (dropWhile isWhiteSpace (rev (dropWhile isWhiteSpace s)))"

section \<open>Image preprocessing\<close>

text \<open>
  A \<open>File\<close> of the browser: its name, its MIME type, its modification time and its
  content. Of the content only what \<open>processImage\<close> observes is kept: whether it
  decodes as an image (\<open>img.onload\<close> against \<open>img.onerror\<close>) and, if so, the
  width and height the decoded image reports.
\<close>

record jsfile =
  name :: jsstring
  type :: jsstring
  lastModified :: nat
  image :: "(nat \<times> nat) option"

datatype kind = success | error

record notification =
  kind :: kind
  message :: jsstring

definition MAX_WIDTH :: nat where
  "MAX_WIDTH = 800"

definition MAX_HEIGHT :: nat where
  "MAX_HEIGHT = 800"

text \<open>
  \<open>Math.round (a / b)\<close> for integers \<open>a \<ge> 0\<close> and \<open>b > 0\<close>: the integer nearest to
  the quotient, a tie going up, which is \<open>\<lfloor>a / b + 1/2\<rfloor>\<close>. Both places that call it
  divide by a number above 800. The double-precision quotient of the source rounds to
  the same integer as the exact one for every image size a browser can decode (the
  products stay far below \<open>2 ^ 53\<close>).
\<close>

definition round_div :: "nat \<Rightarrow> nat \<Rightarrow> nat" where
  "round_div a b = (2 * a + b) div (2 * b)"

text \<open>
  The dimensions computed in \<open>img.onload\<close> and given to the canvas: first the width is
  capped, then the height, each time scaling the other side.
\<close>

definition canvasDims :: "nat \<Rightarrow> nat \<Rightarrow> nat \<times> nat" where
  "canvasDims imgWidth imgHeight =
     (let width = imgWidth;
          height = imgHeight;
          (width, height) =
            (if width > MAX_WIDTH
             then (MAX_WIDTH, round_div (height * MAX_WIDTH) width)
             else (width, height));
          (width, height) =
            (if height > MAX_HEIGHT
             then (round_div (width * MAX_HEIGHT) height, MAX_HEIGHT)
             else (width, height))
      in (width, height))"

section \<open>Calls to the browser\<close>

text \<open>
  What an object URL refers to: a file chosen by the user, or the bytes of a response.
\<close>

datatype blobref = FileBlob jsfile | ResponseBlob "nat list"

text \<open>
  The values \<open>response.json()\<close> can produce, and \<open>undefined\<close>, which reading a
  missing property gives.
\<close>

datatype jsvalue =
    Undefined
  | JNull
  | JBool bool
  | JNum rat
  | JStr jsstring
  | JArr "jsvalue list"
  | JObj "(jsstring \<times> jsvalue) list"

text \<open>
  What the \<open>catch\<close> block of \<open>handleSubmit\<close> can receive: the rejection of
  \<open>fetch\<close> or of \<open>response.blob()\<close>, or the \<open>new Error(errorMessage)\<close> thrown for a
  response that is not ok, kept with the value given to the constructor.
\<close>

datatype exn = NetworkFailure | Error jsvalue

datatype formvalue = FileField jsfile | TextField jsstring

text \<open>
  The argument of \<open>fetch\<close>: the address, the \<open>method\<close> option and the entries of the
  \<open>FormData\<close> body in the order they were appended.
\<close>

record request =
  url :: jsstring
  httpMethod :: jsstring
  body :: "(jsstring \<times> formvalue) list"

text \<open>
  The calls that leave the component, in the order they are made. Object URLs and
  timers are named by numbers; \<open>SetTimeout\<close> is the delayed \<open>setIsLoading(false)\<close>.
\<close>

datatype effect =
    CreateObjectURL nat blobref
  | RevokeObjectURL nat
  | SetInterval nat nat
  | ClearInterval nat
  | SetTimeout nat
  | Fetch request
  | ConsoleError jsstring exn

section \<open>Component state\<close>

text \<open>
  The result object \<open>{imageUrl, message}\<close>, its URL being the number of the object
  URL, and the hooks of the component together with the log of calls.
\<close>

record result =
  imageUrl :: nat
  resultMessage :: jsstring

record state =
  selectedFile :: "jsfile option"
  description :: jsstring
  selectedGender :: jsstring
  isLoading :: bool
  loadingProgress :: real
  errorMessage :: jsstring
  result :: "result option"
  notification :: "notification option"
  isModalOpen :: bool
  effects :: "effect list"

definition log :: "effect \<Rightarrow> state \<Rightarrow> state" where
  "log e st = st\<lparr>effects := effects st @ [e]\<rparr>"

text \<open>
  The browser hands out a new object URL or timer id at every call; the number of calls
  made so far is one that no earlier call was given.
\<close>

definition fresh :: "state \<Rightarrow> nat" where
  "fresh st = length (effects st)"

definition setNotification :: "kind \<Rightarrow> string \<Rightarrow> state \<Rightarrow> state" where
  "setNotification k m st = st\<lparr>notification := Some \<lparr>kind = k, message = js m\<rparr>\<rparr>"

text \<open>
  The effect hook on \<open>[result]\<close>. A handler that gives \<open>setResult\<close> another value
  makes the component render again, and the cleanup that the previous render registered
  then revokes the URL of the result that render had, \<open>previous\<close>. Every URL in a result
  comes from \<open>URL.createObjectURL\<close>, so the \<open>startsWith('blob:')\<close> test of the cleanup
  holds. The same cleanup runs when the component is unmounted.
\<close>

definition resultCleanup :: "result option \<Rightarrow> state \<Rightarrow> state" where
  "resultCleanup previous st =
     (case previous of
        None \<Rightarrow> st
      | Some old \<Rightarrow> log (RevokeObjectURL (imageUrl old)) st)"

section \<open>processImage\<close>

text \<open>
  What the runtime decides: whether \<open>canvas.getContext('2d')\<close> gives a context, whether
  the encoder behind \<open>canvas.toBlob\<close> succeeds on a canvas that has pixels, and the clock.
\<close>

record runtime =
  ctx2d :: bool
  toBlob :: bool
  now :: nat

text \<open>
  The blob of a canvas is an image of the canvas's width and height. A canvas with a
  side of 0 has no pixels, and \<open>canvas.toBlob\<close> hands its callback \<open>null\<close> for it
  whatever the runtime; so the callback gets a blob when both sides are positive and the
  encoder succeeds. With \<open>null\<close> the callback does nothing.
\<close>

definition processImage :: "runtime \<Rightarrow> jsfile \<Rightarrow> state \<Rightarrow> state" where
  "processImage rt f st =
     (let objectUrl = fresh st;
          st = log (CreateObjectURL objectUrl (FileBlob f)) st
      in case image f of
           None \<Rightarrow>
             (let st = log (RevokeObjectURL objectUrl) st
              in setNotification error ''Error loading image. Please try another file.'' st)
         | Some (imgWidth, imgHeight) \<Rightarrow>
             (let st = log (RevokeObjectURL objectUrl) st;
                  (width, height) = canvasDims imgWidth imgHeight
              in if ctx2d rt
                 then (if 0 < width \<and> 0 < height \<and> toBlob rt
                       then (let resizedFile =
                                   \<lparr>name = name f, type = type f, lastModified = now rt,
                                    image = Some (width, height)\<rparr>;
                                 st = st\<lparr>selectedFile := Some resizedFile\<rparr>
                             in setNotification success
                                  ''Image uploaded and optimized successfully!'' st)
                       else st)
                 else st\<lparr>selectedFile := Some f\<rparr>))"

section \<open>handleSubmit\<close>

text \<open>
  A response: its status line, what \<open>response.json()\<close> resolves to (\<open>None\<close> when it
  rejects, the body not being JSON) and what \<open>response.blob()\<close> resolves to (\<open>None\<close>
  when reading the body fails). \<open>ok\<close> is the 2xx test of the Fetch standard.
\<close>

record response =
  status :: nat
  statusText :: jsstring
  json :: "jsvalue option"
  blob :: "nat list option"

datatype fetch_outcome = Rejected | Resolved response

definition ok :: "response \<Rightarrow> bool" where
  "ok r \<longleftrightarrow> 200 \<le> status r \<and> status r \<le> 299"

fun decimal :: "nat \<Rightarrow> jsstring" where
  "decimal n = (if n < 10 then [48 + n] else decimal (n div 10) @ [48 + n mod 10])"

declare decimal.simps [simp del]

text \<open>
  Reading the property \<open>detail\<close> or \<open>message\<close>: of an object parsed from JSON it is the
  last member of that name; a string, number, boolean or array has neither (their
  prototypes define none), so the read gives \<open>undefined\<close>. Reading a property of
  \<open>null\<close> throws, which \<open>getProp\<close> leaves to its caller.
\<close>

fun getProp :: "jsvalue \<Rightarrow> jsstring \<Rightarrow> jsvalue" where
  "getProp (JObj kvs) k = (case map_of (rev kvs) k of None \<Rightarrow> Undefined | Some v \<Rightarrow> v)"
| "getProp _ k = Undefined"

fun truthy :: "jsvalue \<Rightarrow> bool" where
  "truthy Undefined = False"
| "truthy JNull = False"
| "truthy (JBool b) = b"
| "truthy (JNum x) = (x \<noteq> 0)"
| "truthy (JStr s) = (s \<noteq> [])"
| "truthy (JArr _) = True"
| "truthy (JObj _) = True"

definition or_js :: "jsvalue \<Rightarrow> jsvalue \<Rightarrow> jsvalue" where
  "or_js a b = (if truthy a then a else b)"

definition statusLine :: "response \<Rightarrow> jsstring" where
  "statusLine r = js ''Server error: '' @ decimal (status r) @ js '' '' @ statusText r"

text \<open>
  The branch for a response that is not ok: the value given to \<open>new Error\<close>. The inner
  \<open>catch\<close> is reached when \<open>response.json()\<close> rejects and when the body is the JSON
  \<open>null\<close>, whose property cannot be read.
\<close>

definition errorMessageOf :: "response \<Rightarrow> jsvalue" where
  "errorMessageOf r =
     (let errorMessage = JStr (js ''Failed to process the sketch'')
      in case json r of
           None \<Rightarrow> JStr (statusLine r)
         | Some JNull \<Rightarrow> JStr (statusLine r)
         | Some errorData \<Rightarrow>
             or_js (or_js (getProp errorData (js ''detail'')) (getProp errorData (js ''message'')))
               errorMessage)"

text \<open>
  One run of the interval callback, \<open>r\<close> being what \<open>Math.random()\<close> returned.
  The progress is a double in the source and a real number here; \<open>fl\<close> is the rounding
  of an exact product or sum to the double that the source computes.
\<close>

definition tick :: "(real \<Rightarrow> real) \<Rightarrow> real \<Rightarrow> real \<Rightarrow> real" where
  "tick fl r prev = (if prev < 85 then fl (prev + fl (r * 3)) else prev)"

definition catchBlock :: "nat \<Rightarrow> exn \<Rightarrow> state \<Rightarrow> state" where
  "catchBlock progressInterval e st =
     (let st = log (ConsoleError (js ''Error processing sketch:'') e) st;
          st = log (ClearInterval progressInterval) st;
          st = setNotification error ''Failed to process the sketch. Please try again.'' st
      in log (SetTimeout 500) st)"

definition combinedPrompt :: "jsstring \<Rightarrow> jsstring \<Rightarrow> jsstring" where
  "combinedPrompt d g = d @ js '' ('' @ g @ js '')''"

text \<open>
  \<open>handleSubmit\<close>, run to its end. \<open>randoms\<close> are the values \<open>Math.random()\<close> returns
  to the interval callbacks that run while the function waits, one for each run before
  the timer is cleared; \<open>outcome\<close> is how the \<open>fetch\<close> promise settles. A new result
  is a new object, so the render that follows a success runs the cleanup of the effect
  hook for the result there was before.
\<close>

definition handleSubmit ::
  "(real \<Rightarrow> real) \<Rightarrow> real list \<Rightarrow> fetch_outcome \<Rightarrow> state \<Rightarrow> state" where
  "handleSubmit fl randoms outcome st0 =
     (let st = st0\<lparr>errorMessage := [], notification := None\<rparr>
      in case selectedFile st0 of
           None \<Rightarrow> setNotification error ''Please upload a sketch first'' st
         | Some f \<Rightarrow>
             if trim (description st0) = []
             then setNotification error ''Please provide a description'' st
             else if selectedGender st0 = []
             then setNotification error ''Please select a gender'' st
             else
               (let st = st\<lparr>isLoading := True, loadingProgress := 0\<rparr>;
                    progressInterval = fresh st;
                    st = log (SetInterval progressInterval 200) st;
                    formData = [(js ''file'', FileField f),
                                (js ''prompt'',
                                 TextField (combinedPrompt (description st0) (selectedGender st0)))];
                    st = log (Fetch \<lparr>url = js ''http://216.81.248.20:8000/generate-image'',
                                      httpMethod = js ''POST'', body = formData\<rparr>) st;
                    st = st\<lparr>loadingProgress :=
                              foldl (\<lambda>prev r. tick fl r prev) (loadingProgress st) randoms\<rparr>
                in case outcome of
                     Rejected \<Rightarrow> catchBlock progressInterval NetworkFailure st
                   | Resolved r \<Rightarrow>
                       if \<not> ok r
                       then catchBlock progressInterval (Error (errorMessageOf r)) st
                       else (case blob r of
                               None \<Rightarrow> catchBlock progressInterval NetworkFailure st
                             | Some imageBlob \<Rightarrow>
                                 (let imageUrl = fresh st;
                                      st = log (CreateObjectURL imageUrl (ResponseBlob imageBlob)) st;
                                      apiResult = \<lparr>imageUrl = imageUrl,
                                                   resultMessage = js ''Face successfully generated!''\<rparr>;
                                      st = log (ClearInterval progressInterval) st;
                                      st = st\<lparr>loadingProgress := 100\<rparr>;
                                      st = st\<lparr>result := Some apiResult\<rparr>;
                                      st = setNotification success
                                             ''Face was successfully generated from your sketch!'' st;
                                      st = st\<lparr>isModalOpen := True\<rparr>;
                                      st = log (SetTimeout 500) st
                                  in resultCleanup (result st0) st))))"

section \<open>Rendering and the buttons that drop the sketch\<close>

text \<open>
  What a render of the component asks of the browser: the \<open>img\<close> of the upload area
  is given \<open>URL.createObjectURL(selectedFile)\<close> whenever a file is selected, and so is
  the \<open>sketchUrl\<close> of the modal, which is rendered when there is a result.
\<close>

definition render :: "state \<Rightarrow> state" where
  "render st =
     (case selectedFile st of
        None \<Rightarrow> st
      | Some f \<Rightarrow>
          (let st = log (CreateObjectURL (fresh st) (FileBlob f)) st
           in if result st \<noteq> None
              then log (CreateObjectURL (fresh st) (FileBlob f)) st
              else st))"

text \<open>The "Remove image" button.\<close>

definition removeImage :: "state \<Rightarrow> state" where
  "removeImage st = st\<lparr>selectedFile := None\<rparr>"

text \<open>
  The "Create New Image" button of the result panel: it revokes the URL of the result
  itself, and the render that follows runs the cleanup of the effect hook as well.
\<close>

definition createNewImage :: "state \<Rightarrow> state" where
  "createNewImage st0 =
     (let st = (case result st0 of
                  None \<Rightarrow> st0
                | Some r \<Rightarrow> log (RevokeObjectURL (imageUrl r)) st0);
          st = st\<lparr>result := None, selectedFile := None, description := [],
                  selectedGender := []\<rparr>
      in resultCleanup (result st0) st)"

text \<open>Unmounting runs the cleanup of the effect hook on \<open>[result]\<close>.\<close>

definition unmount :: "state \<Rightarrow> state" where
  "unmount st = resultCleanup (result st) st"

text \<open>
  The object URLs that are live after a sequence of calls, with what they refer to:
  those created and not revoked since.
\<close>

fun liveStep :: "(nat \<times> blobref) list \<Rightarrow> effect \<Rightarrow> (nat \<times> blobref) list" where
  "liveStep acc (CreateObjectURL u b) = acc @ [(u, b)]"
| "liveStep acc (RevokeObjectURL u) = filter (\<lambda>(v, _). v \<noteq> u) acc"
| "liveStep acc _ = acc"

definition live :: "effect list \<Rightarrow> (nat \<times> blobref) list" where
  "live es = foldl liveStep [] es"

section \<open>Example inputs\<close>

text \<open>The state of a freshly mounted component: the initial values of its hooks.\<close>

definition initialState :: state where
  "initialState =
     \<lparr>selectedFile = None, description = [], selectedGender = [], isLoading = False,
      loadingProgress = 0, errorMessage = [], result = None, notification = None,
      isModalOpen = False, effects = []\<rparr>"

definition photo :: "nat \<Rightarrow> nat \<Rightarrow> jsfile" where
  "photo w h =
     \<lparr>name = js ''sketch.jpg'', type = js ''image/jpeg'', lastModified = 0,
      image = Some (w, h)\<rparr>"

definition canvasRuntime :: runtime where
  "canvasRuntime = \<lparr>ctx2d = True, toBlob = True, now = 1\<rparr>"

definition noCanvasRuntime :: runtime where
  "noCanvasRuntime = \<lparr>ctx2d = False, toBlob = False, now = 1\<rparr>"

definition readyState :: "jsfile \<Rightarrow> state" where
  "readyState f =
     initialState\<lparr>selectedFile := Some f, description := js ''a smiling man'',
                  selectedGender := js ''male''\<rparr>"

definition imageResponse :: response where
  "imageResponse =
     \<lparr>status = 200, statusText = js ''OK'', json = None, blob = Some [137, 80, 78, 71]\<rparr>"

definition emptyObjectResponse :: response where
  "emptyObjectResponse =
     \<lparr>status = 500, statusText = js ''Internal Server Error'', json = Some (JObj []),
      blob = None\<rparr>"

definition detailResponse :: response where
  "detailResponse =
     \<lparr>status = 422, statusText = js ''Unprocessable Entity'',
      json = Some (JObj [(js ''detail'', JStr (js ''No face found''))]), blob = None\<rparr>"

definition htmlResponse :: response where
  "htmlResponse =
     \<lparr>status = 502, statusText = js ''Bad Gateway'', json = None, blob = None\<rparr>"

section \<open>Reading the log of calls\<close>

text \<open>The calls made between two states, the later one reached from the earlier.\<close>

definition issued :: "state \<Rightarrow> state \<Rightarrow> effect list" where
  "issued st st' = drop (length (effects st)) (effects st')"

fun isFetch :: "effect \<Rightarrow> bool" where
  "isFetch (Fetch _) = True"
| "isFetch _ = False"

fun isTimer :: "effect \<Rightarrow> bool" where
  "isTimer (SetInterval _ _) = True"
| "isTimer (ClearInterval _) = True"
| "isTimer _ = False"

fun isConsole :: "effect \<Rightarrow> bool" where
  "isConsole (ConsoleError _ _) = True"
| "isConsole _ = False"

text \<open>The request \<open>handleSubmit\<close> builds from the file, the description and the gender.\<close>

abbreviation generateImage :: "jsfile \<Rightarrow> jsstring \<Rightarrow> jsstring \<Rightarrow> request" where
  "generateImage f d g \<equiv>
     \<lparr>url = js ''http://216.81.248.20:8000/generate-image'', httpMethod = js ''POST'',
      body = [(js ''file'', FileField f), (js ''prompt'', TextField (combinedPrompt d g))]\<rparr>"

abbreviation runTicks :: "(real \<Rightarrow> real) \<Rightarrow> real list \<Rightarrow> real \<Rightarrow> real" where
  "runTicks fl randoms p \<equiv> foldl (\<lambda>prev r. tick fl r prev) p randoms"


section \<open>Rounding\<close>







lemma round_div_zero: "2 * a < b \<Longrightarrow> round_div a b = 0"
  unfolding round_div_def by simp


section \<open>The dimensions of the canvas\<close>




lemma dims_small:
  assumes "w \<le> 800" "h \<le> 800"
  shows "canvasDims w h = (w, h)"
  using assms by (simp add: canvasDims_def MAX_WIDTH_def MAX_HEIGHT_def)





text \<open>
  The scaled side is not always the nearest integer: the height is rounded first and
  the width is then computed from the rounded height.
\<close>

lemma canvasDims_1682_1723:
  "canvasDims 1682 1723 = (780, 800) \<and> \<not> \<bar>real 780 - 800 * 1682 / 1723\<bar> \<le> 1/2"
  by (simp add: canvasDims_def MAX_WIDTH_def MAX_HEIGHT_def round_div_def)


section \<open>What processImage selects\<close>

lemma processImage_resized:
  assumes "image f = Some (w, h)" "ctx2d rt" "toBlob rt"
    and "0 < fst (canvasDims w h)" "0 < snd (canvasDims w h)"
  shows "selectedFile (processImage rt f st) =
           Some \<lparr>name = name f, type = type f, lastModified = now rt,
                 image = Some (canvasDims w h)\<rparr>"
  using assms
  by (auto simp add: processImage_def Let_def log_def setNotification_def split: prod.splits)

lemma processImage_no_blob:
  assumes "image f = Some (w, h)" "ctx2d rt"
    and "\<not> toBlob rt \<or> fst (canvasDims w h) = 0 \<or> snd (canvasDims w h) = 0"
  shows "selectedFile (processImage rt f st) = selectedFile st
         \<and> notification (processImage rt f st) = notification st"
  using assms
  by (auto simp add: processImage_def Let_def log_def split: prod.splits)

lemma processImage_undecodable:
  assumes "image f = None"
  shows "selectedFile (processImage rt f st) = selectedFile st
         \<and> notification (processImage rt f st) =
             Some \<lparr>kind = error, message = js ''Error loading image. Please try another file.''\<rparr>"
  using assms
  by (simp add: processImage_def Let_def log_def setNotification_def)




text \<open>
  C9. An image whose width and height are both at most 800 pixels is drawn on a canvas of
  its own width and height: nothing is scaled up. Where the image has pixels and the
  runtime gives a canvas context and encodes the canvas, the file selected is an image
  of those dimensions; a canvas with no pixels gives no blob, and the selection stays.
\<close>

theorem processImage_keeps_small_image:
  assumes "image f = Some (w, h)" and "w \<le> 800" and "h \<le> 800"
  shows "canvasDims w h = (w, h)
         \<and> (ctx2d rt \<and> toBlob rt \<longrightarrow>
              (if 0 < w \<and> 0 < h
               then selectedFile (processImage rt f st) =
                      Some \<lparr>name = name f, type = type f, lastModified = now rt,
                            image = Some (w, h)\<rparr>
               else selectedFile (processImage rt f st) = selectedFile st))"
proof -
  have d: "canvasDims w h = (w, h)"
    using assms(2,3) by (rule dims_small)
  show ?thesis
  proof (cases "0 < w \<and> 0 < h")
    case True
    then show ?thesis
      using processImage_resized [OF assms(1), of rt st] d by simp
  next
    case False
    then show ?thesis
      using processImage_no_blob [OF assms(1), of rt st] d by auto
  qed
qed

theorem processImage_keeps_small_image_witness:
  "image (photo 640 480) = Some (640, 480) \<and> (640::nat) \<le> 800 \<and> (480::nat) \<le> 800
   \<and> ctx2d canvasRuntime \<and> toBlob canvasRuntime
   \<and> canvasDims 640 480 = (640, 480)
   \<and> selectedFile (processImage canvasRuntime (photo 640 480) initialState) =
       Some \<lparr>name = js ''sketch.jpg'', type = js ''image/jpeg'', lastModified = 1,
             image = Some (640, 480)\<rparr>"
proof -
  have i: "image (photo 640 480) = Some (640, 480)"
    by (simp add: photo_def)
  have r: "ctx2d canvasRuntime \<and> toBlob canvasRuntime"
    by (simp add: canvasRuntime_def)
  from processImage_keeps_small_image [OF i, of canvasRuntime initialState] r
  have "canvasDims 640 480 = (640, 480)
        \<and> selectedFile (processImage canvasRuntime (photo 640 480) initialState) =
            Some \<lparr>name = name (photo 640 480), type = type (photo 640 480),
                  lastModified = now canvasRuntime, image = Some (640, 480)\<rparr>"
    by simp
  then show ?thesis
    using i r by (simp add: photo_def canvasRuntime_def)
qed

text \<open>
  C6. When the runtime gives no 2D canvas context, so that the image cannot be drawn and
  encoded again, the file selected is the file as the user gave it, whatever its
  dimensions, and no notification is raised: the one the state held stays.
\<close>

theorem processImage_fallback:
  assumes "image f = Some (w, h)" and "\<not> ctx2d rt"
  shows "selectedFile (processImage rt f st) = Some f
         \<and> notification (processImage rt f st) = notification st"
  using assms
  by (simp add: processImage_def Let_def log_def split: prod.splits)

theorem processImage_fallback_witness:
  "image (photo 1600 1200) = Some (1600, 1200) \<and> \<not> ctx2d noCanvasRuntime
   \<and> selectedFile (processImage noCanvasRuntime (photo 1600 1200) initialState) =
       Some (photo 1600 1200)
   \<and> notification (processImage noCanvasRuntime (photo 1600 1200) initialState) = None"
proof -
  have i: "image (photo 1600 1200) = Some (1600, 1200)"
    by (simp add: photo_def)
  have c: "\<not> ctx2d noCanvasRuntime"
    by (simp add: noCanvasRuntime_def)
  from processImage_fallback [OF i c, of initialState] i c
  show ?thesis
    by (simp add: initialState_def)
qed

section \<open>Validation and the two ways out of handleSubmit\<close>

lemma trim_empty_iff: "trim s = [] \<longleftrightarrow> (\<forall>c\<in>set s. isWhiteSpace c)"
proof
  assume "\<forall>c\<in>set s. isWhiteSpace c"
  then have d: "dropWhile isWhiteSpace s = []" by simp
  show "trim s = []" by (simp only: trim_def d rev.simps dropWhile.simps)
next
  assume "trim s = []"
  then have a: "\<forall>c\<in>set (dropWhile isWhiteSpace s). isWhiteSpace c"
    by (simp add: trim_def)
  have "dropWhile isWhiteSpace s = []"
  proof (rule ccontr)
    assume n: "dropWhile isWhiteSpace s \<noteq> []"
    then have "\<not> isWhiteSpace (hd (dropWhile isWhiteSpace s))"
      by (rule hd_dropWhile)
    moreover have "hd (dropWhile isWhiteSpace s) \<in> set (dropWhile isWhiteSpace s)"
      using n by (rule hd_in_set)
    ultimately show False using a by blast
  qed
  then show "\<forall>c\<in>set s. isWhiteSpace c" by simp
qed

lemma handleSubmit_no_file:
  assumes "selectedFile st = None"
  shows "handleSubmit fl rs out st =
           st\<lparr>errorMessage := [],
              notification := Some \<lparr>kind = error, message = js ''Please upload a sketch first''\<rparr>\<rparr>"
  using assms by (simp add: handleSubmit_def setNotification_def)

lemma handleSubmit_no_description:
  assumes "selectedFile st \<noteq> None" "trim (description st) = []"
  shows "handleSubmit fl rs out st =
           st\<lparr>errorMessage := [],
              notification := Some \<lparr>kind = error, message = js ''Please provide a description''\<rparr>\<rparr>"
  using assms by (auto simp add: handleSubmit_def setNotification_def)

lemma handleSubmit_no_gender:
  assumes "selectedFile st \<noteq> None" "trim (description st) \<noteq> []" "selectedGender st = []"
  shows "handleSubmit fl rs out st =
           st\<lparr>errorMessage := [],
              notification := Some \<lparr>kind = error, message = js ''Please select a gender''\<rparr>\<rparr>"
  using assms by (auto simp add: handleSubmit_def setNotification_def)

lemma catchBlock_eq:
  "catchBlock n e st =
     st\<lparr>notification :=
           Some \<lparr>kind = error, message = js ''Failed to process the sketch. Please try again.''\<rparr>,
        effects := effects st @ [ConsoleError (js ''Error processing sketch:'') e,
                                 ClearInterval n, SetTimeout 500]\<rparr>"
  by (simp add: catchBlock_def Let_def log_def setNotification_def)

lemma handleSubmit_failure:
  assumes "selectedFile st = Some f" "trim (description st) \<noteq> []" "selectedGender st \<noteq> []"
    and "out = Rejected \<and> e = NetworkFailure
         \<or> (\<exists>r. out = Resolved r \<and> \<not> ok r \<and> e = Error (errorMessageOf r))
         \<or> (\<exists>r. out = Resolved r \<and> ok r \<and> blob r = None \<and> e = NetworkFailure)"
  shows "handleSubmit fl rs out st =
           st\<lparr>errorMessage := [],
              notification :=
                Some \<lparr>kind = error,
                      message = js ''Failed to process the sketch. Please try again.''\<rparr>,
              isLoading := True,
              loadingProgress := runTicks fl rs 0,
              effects := effects st @
                [SetInterval (length (effects st)) 200,
                 Fetch (generateImage f (description st) (selectedGender st)),
                 ConsoleError (js ''Error processing sketch:'') e,
                 ClearInterval (length (effects st)),
                 SetTimeout 500]\<rparr>"
  using assms
  by (auto simp add: handleSubmit_def Let_def log_def fresh_def catchBlock_eq)

lemma handleSubmit_success:
  assumes "selectedFile st = Some f" "trim (description st) \<noteq> []" "selectedGender st \<noteq> []"
    and "ok r" "blob r = Some b"
  shows "handleSubmit fl rs (Resolved r) st =
           st\<lparr>errorMessage := [],
              notification :=
                Some \<lparr>kind = success,
                      message = js ''Face was successfully generated from your sketch!''\<rparr>,
              isLoading := True,
              loadingProgress := 100,
              result := Some \<lparr>imageUrl = length (effects st) + 2,
                              resultMessage = js ''Face successfully generated!''\<rparr>,
              isModalOpen := True,
              effects := effects st @
                [SetInterval (length (effects st)) 200,
                 Fetch (generateImage f (description st) (selectedGender st)),
                 CreateObjectURL (length (effects st) + 2) (ResponseBlob b),
                 ClearInterval (length (effects st)),
                 SetTimeout 500] @
                (case result st of
                   None \<Rightarrow> []
                 | Some old \<Rightarrow> [RevokeObjectURL (imageUrl old)])\<rparr>"
  using assms
  by (auto simp add: handleSubmit_def Let_def log_def fresh_def resultCleanup_def
      setNotification_def split: option.splits)

lemma issued_append: "effects st' = effects st @ es \<Longrightarrow> issued st st' = es"
  by (simp add: issued_def)

text \<open>
  How a submission that passed validation can end: with an exception for the
  \<open>catch\<close> block, or with the bytes of the generated image.
\<close>

lemma outcome_cases:
  obtains (failure) e where
      "out = Rejected \<and> e = NetworkFailure
       \<or> (\<exists>r. out = Resolved r \<and> \<not> ok r \<and> e = Error (errorMessageOf r))
       \<or> (\<exists>r. out = Resolved r \<and> ok r \<and> blob r = None \<and> e = NetworkFailure)"
  | (success) r b where "out = Resolved r" "ok r" "blob r = Some b"
proof (cases out)
  case Rejected
  then show ?thesis using failure by blast
next
  case (Resolved r)
  then show ?thesis
    using failure [of "Error (errorMessageOf r)"] failure [of NetworkFailure] success [of r]
    by (cases "ok r"; cases "blob r") auto
qed

section \<open>The submission claims\<close>

text \<open>
  C10. The three inputs are checked in the order image, description, gender, and
  \<open>handleSubmit\<close> returns at the first that is missing: all it changes is the
  notification, set to the message of that first missing input, and the error message,
  cleared. A description made of white space only counts as missing.
\<close>

theorem handleSubmit_validation_order:
  assumes "selectedFile st = None \<or> (\<forall>c\<in>set (description st). isWhiteSpace c)
           \<or> selectedGender st = []"
  shows "handleSubmit fl rs out st =
           st\<lparr>errorMessage := [],
              notification :=
                Some \<lparr>kind = error,
                      message =
                        (if selectedFile st = None then js ''Please upload a sketch first''
                         else if (\<forall>c\<in>set (description st). isWhiteSpace c)
                         then js ''Please provide a description''
                         else js ''Please select a gender'')\<rparr>\<rparr>"
proof (cases "selectedFile st = None")
  case True
  then show ?thesis by (simp add: handleSubmit_no_file)
next
  case present: False
  show ?thesis
  proof (cases "\<forall>c\<in>set (description st). isWhiteSpace c")
    case True
    then have t: "trim (description st) = []"
      using trim_empty_iff [of "description st"] by blast
    show ?thesis
      using handleSubmit_no_description [OF present t, of fl rs out] present True by auto
  next
    case False
    then have t: "trim (description st) \<noteq> []"
      using trim_empty_iff [of "description st"] by blast
    from assms present False have g: "selectedGender st = []" by blast
    show ?thesis
      using handleSubmit_no_gender [OF present t g, of fl rs out] present False by auto
  qed
qed

theorem handleSubmit_validation_order_witness:
  "notification (handleSubmit (\<lambda>x. x) [] Rejected (initialState\<lparr>description := js ''  ''\<rparr>)) =
     Some \<lparr>kind = error, message = js ''Please upload a sketch first''\<rparr>
   \<and> notification
       (handleSubmit (\<lambda>x. x) [] Rejected
          (initialState\<lparr>selectedFile := Some (photo 640 480), description := js ''  ''\<rparr>)) =
     Some \<lparr>kind = error, message = js ''Please provide a description''\<rparr>
   \<and> notification
       (handleSubmit (\<lambda>x. x) [] Rejected
          (initialState\<lparr>selectedFile := Some (photo 640 480), description := js ''a man''\<rparr>)) =
     Some \<lparr>kind = error, message = js ''Please select a gender''\<rparr>"
proof -
  have "notification (handleSubmit (\<lambda>x. x) [] Rejected (initialState\<lparr>description := js ''  ''\<rparr>)) =
          Some \<lparr>kind = error, message = js ''Please upload a sketch first''\<rparr>"
    using handleSubmit_validation_order
      [of "initialState\<lparr>description := js ''  ''\<rparr>" "\<lambda>x. x" "[]" Rejected]
    by (simp add: initialState_def)
  moreover have "notification
       (handleSubmit (\<lambda>x. x) [] Rejected
          (initialState\<lparr>selectedFile := Some (photo 640 480), description := js ''  ''\<rparr>)) =
     Some \<lparr>kind = error, message = js ''Please provide a description''\<rparr>"
    using handleSubmit_validation_order
      [of "initialState\<lparr>selectedFile := Some (photo 640 480), description := js ''  ''\<rparr>"
          "\<lambda>x. x" "[]" Rejected]
    by (simp add: initialState_def js_def isWhiteSpace_def)
  moreover have "notification
       (handleSubmit (\<lambda>x. x) [] Rejected
          (initialState\<lparr>selectedFile := Some (photo 640 480), description := js ''a man''\<rparr>)) =
     Some \<lparr>kind = error, message = js ''Please select a gender''\<rparr>"
    using handleSubmit_validation_order
      [of "initialState\<lparr>selectedFile := Some (photo 640 480), description := js ''a man''\<rparr>"
          "\<lambda>x. x" "[]" Rejected]
    by (simp add: initialState_def js_def isWhiteSpace_def)
  ultimately show ?thesis by blast
qed

text \<open>
  C2. When the image is absent, or the description is empty (or white space only), or no
  gender is selected, \<open>handleSubmit\<close> makes no call at all, so no request is sent, and
  the notification is an error whose message is that of a missing input; the three
  messages differ from one another.
\<close>

theorem handleSubmit_missing_input:
  assumes "selectedFile st = None \<or> (\<forall>c\<in>set (description st). isWhiteSpace c)
           \<or> selectedGender st = []"
  shows "effects (handleSubmit fl rs out st) = effects st
         \<and> filter isFetch (issued st (handleSubmit fl rs out st)) = []
         \<and> (\<exists>m. notification (handleSubmit fl rs out st) = Some \<lparr>kind = error, message = m\<rparr>
                \<and> (m = js ''Please upload a sketch first'' \<and> selectedFile st = None
                    \<or> m = js ''Please provide a description''
                       \<and> (\<forall>c\<in>set (description st). isWhiteSpace c)
                    \<or> m = js ''Please select a gender'' \<and> selectedGender st = []))
         \<and> distinct [js ''Please upload a sketch first'', js ''Please provide a description'',
                      js ''Please select a gender'']"
proof -
  have tr: "trim (description st) = [] \<longleftrightarrow> (\<forall>c\<in>set (description st). isWhiteSpace c)"
    by (rule trim_empty_iff)
  have d: "distinct [js ''Please upload a sketch first'', js ''Please provide a description'',
                     js ''Please select a gender'']"
    by (simp add: js_def)
  show ?thesis
  proof (cases "selectedFile st = None")
    case True
    then show ?thesis
      using d by (simp add: handleSubmit_no_file issued_def)
  next
    case present: False
    show ?thesis
    proof (cases "trim (description st) = []")
      case True
      show ?thesis
        using handleSubmit_no_description [OF present True, of fl rs out] d tr True
        by (auto simp add: issued_def)
    next
      case False
      with assms present tr have g: "selectedGender st = []" by blast
      show ?thesis
        using handleSubmit_no_gender [OF present False g, of fl rs out] d g
        by (auto simp add: issued_def)
    qed
  qed
qed

theorem handleSubmit_missing_input_witness:
  "effects (handleSubmit (\<lambda>x. x) [] (Resolved imageResponse)
              (initialState\<lparr>selectedFile := Some (photo 640 480), selectedGender := js ''male''\<rparr>))
     = []
   \<and> notification (handleSubmit (\<lambda>x. x) [] (Resolved imageResponse)
        (initialState\<lparr>selectedFile := Some (photo 640 480), selectedGender := js ''male''\<rparr>))
     = Some \<lparr>kind = error, message = js ''Please provide a description''\<rparr>"
proof -
  let ?st = "initialState\<lparr>selectedFile := Some (photo 640 480), selectedGender := js ''male''\<rparr>"
  have h: "selectedFile ?st = None \<or> (\<forall>c\<in>set (description ?st). isWhiteSpace c)
           \<or> selectedGender ?st = []"
    by (simp add: initialState_def)
  from handleSubmit_missing_input [OF h, of "\<lambda>x. x" "[]" "Resolved imageResponse"]
  show ?thesis
    by (simp add: initialState_def js_def)
qed

text \<open>
  C3. A submission that passes validation sends exactly one request, however it ends: a
  POST whose form has the field \<open>file\<close>, the selected file, and the field \<open>prompt\<close>,
  the description followed by the gender in parentheses. The description
  "a smiling man" with the gender "male" gives the prompt "a smiling man (male)".
\<close>

theorem handleSubmit_sends_one_request:
  assumes "selectedFile st = Some f"
    and "\<not> (\<forall>c\<in>set (description st). isWhiteSpace c)"
    and "selectedGender st \<noteq> []"
  shows "filter isFetch (issued st (handleSubmit fl rs out st)) =
           [Fetch \<lparr>url = js ''http://216.81.248.20:8000/generate-image'',
                   httpMethod = js ''POST'',
                   body = [(js ''file'', FileField f),
                           (js ''prompt'',
                            TextField (description st @ js '' ('' @ selectedGender st @ js '')''))]\<rparr>]
         \<and> combinedPrompt (js ''a smiling man'') (js ''male'') = js ''a smiling man (male)''"
proof -
  have t: "trim (description st) \<noteq> []"
    using assms(2) trim_empty_iff [of "description st"] by blast
  have p: "combinedPrompt (js ''a smiling man'') (js ''male'') = js ''a smiling man (male)''"
    by (simp add: combinedPrompt_def js_def)
  show ?thesis
  proof (cases out rule: outcome_cases)
    case (failure e)
    then show ?thesis
      using p by (simp add: handleSubmit_failure [OF assms(1) t assms(3) failure]
          issued_def combinedPrompt_def)
  next
    case (success r b)
    then show ?thesis
      using p by (simp add: handleSubmit_success [OF assms(1) t assms(3) success(2,3)]
          issued_def combinedPrompt_def split: option.splits)
  qed
qed

theorem handleSubmit_sends_one_request_witness:
  "filter isFetch
     (effects (handleSubmit (\<lambda>x. x) [] (Resolved imageResponse) (readyState (photo 640 480)))) =
     [Fetch \<lparr>url = js ''http://216.81.248.20:8000/generate-image'',
             httpMethod = js ''POST'',
             body = [(js ''file'', FileField (photo 640 480)),
                     (js ''prompt'', TextField (js ''a smiling man (male)''))]\<rparr>]"
proof -
  let ?st = "readyState (photo 640 480)"
  have f: "selectedFile ?st = Some (photo 640 480)"
    by (simp add: readyState_def)
  have d: "\<not> (\<forall>c\<in>set (description ?st). isWhiteSpace c)"
    by (simp add: readyState_def js_def isWhiteSpace_def)
  have g: "selectedGender ?st \<noteq> []"
    by (simp add: readyState_def js_def)
  have e: "effects ?st = []"
    by (simp add: readyState_def initialState_def)
  from handleSubmit_sends_one_request [OF f d g, of "\<lambda>x. x" "[]" "Resolved imageResponse"] e
  show ?thesis
    by (simp add: issued_def readyState_def js_def)
qed

section \<open>The simulated progress\<close>

text \<open>
  What the proofs need of the rounding to a double: it keeps the order, it leaves a
  double as it is, and 0, 3 and 88 are doubles.
\<close>

lemma tick_bounds:
  assumes fl: "mono fl" "fl 0 = 0" "fl 3 = 3" "fl 88 = 88"
    and p: "fl p = p" "0 \<le> p" "p \<le> 88"
    and r: "0 \<le> r" "r < 1"
  shows "p \<le> tick fl r p \<and> tick fl r p \<le> 88"
proof (cases "p < 85")
  case True
  have "fl 0 \<le> fl (r * 3)"
    using r(1) by (intro monoD [OF fl(1)]) simp
  then have lo: "0 \<le> fl (r * 3)" using fl(2) by simp
  have "fl (r * 3) \<le> fl 3"
    using r(2) by (intro monoD [OF fl(1)]) simp
  then have hi: "fl (r * 3) \<le> 3" using fl(3) by simp
  have "fl p \<le> fl (p + fl (r * 3))"
    using lo by (intro monoD [OF fl(1)]) simp
  then have up: "p \<le> fl (p + fl (r * 3))" using p(1) by simp
  have "fl (p + fl (r * 3)) \<le> fl 88"
    using hi True by (intro monoD [OF fl(1)]) simp
  then have "fl (p + fl (r * 3)) \<le> 88" using fl(4) by simp
  with up True show ?thesis by (simp add: tick_def)
next
  case False
  with p show ?thesis by (simp add: tick_def)
qed

lemma tick_fixed:
  assumes "\<And>x. fl (fl x) = fl x" "fl p = p"
  shows "fl (tick fl r p) = tick fl r p"
  using assms by (simp add: tick_def)

lemma tick_ceiling: "85 \<le> p \<Longrightarrow> tick fl r p = p"
  by (simp add: tick_def)

lemma runTicks_bounds:
  assumes fl: "mono fl" "\<And>x. fl (fl x) = fl x" "fl 0 = 0" "fl 3 = 3" "fl 88 = 88"
    and rs: "\<forall>r\<in>set rs. 0 \<le> r \<and> r < 1"
    and p: "fl p = p" "0 \<le> p" "p \<le> 88"
  shows "p \<le> runTicks fl rs p \<and> runTicks fl rs p \<le> 88
         \<and> fl (runTicks fl rs p) = runTicks fl rs p"
  using rs p
proof (induction rs arbitrary: p)
  case Nil
  then show ?case by simp
next
  case (Cons r rs)
  then have r: "0 \<le> r" "r < 1" by simp_all
  from tick_bounds [OF fl(1,3,4,5) Cons.prems(2,3,4) r]
  have t: "p \<le> tick fl r p" "tick fl r p \<le> 88" by simp_all
  then have z: "0 \<le> tick fl r p" using Cons.prems(3) by linarith
  have x: "fl (tick fl r p) = tick fl r p"
    using fl(2) Cons.prems(2) by (rule tick_fixed)
  have "\<forall>r\<in>set rs. 0 \<le> r \<and> r < 1" using Cons.prems(1) by simp
  from Cons.IH [OF this x z t(2)] t show ?case by simp
qed

text \<open>The timer calls of a submission that passed validation, however it ends.\<close>

lemma handleSubmit_timer_calls:
  assumes "selectedFile st = Some f" "trim (description st) \<noteq> []" "selectedGender st \<noteq> []"
  shows "filter isTimer (issued st (handleSubmit fl rs out st)) =
           [SetInterval (length (effects st)) 200, ClearInterval (length (effects st))]"
proof (cases out rule: outcome_cases)
  case (failure e)
  show ?thesis
    by (simp add: handleSubmit_failure [OF assms failure] issued_def)
next
  case (success r b)
  show ?thesis
    unfolding success(1)
    by (simp add: handleSubmit_success [OF assms success(2,3)] issued_def
        split: option.splits)
qed

text \<open>
  C4, as the code has it. While a submission waits for the server, each run of the
  interval callback, started once with a period of 200 ms, adds three times a random
  number to the progress if the progress is below 85 and leaves it as it is otherwise.
  So the progress only rises, but 85 is where the rising stops and not a bound: the
  last rise can take the progress past 85, to 88 at most. It never reaches 100 by
  itself. When \<open>handleSubmit\<close> is done the progress is 100 exactly when the response
  was ok and its body was read; otherwise it is where the callbacks left it. The
  values of \<open>Math.random()\<close> lie in \<open>[0, 1)\<close>.
\<close>

theorem progress_waits_for_response:
  assumes "selectedFile st = Some f"
    and "\<not> (\<forall>c\<in>set (description st). isWhiteSpace c)"
    and "selectedGender st \<noteq> []"
    and "\<forall>r\<in>set rs. 0 \<le> r \<and> r < 1"
    and fl: "mono fl" "\<And>x. fl (fl x) = fl x" "fl 0 = 0" "fl 3 = 3" "fl 88 = 88"
  shows "(\<forall>k<length rs.
            runTicks fl (take (Suc k) rs) 0 =
              (if runTicks fl (take k rs) 0 < 85
               then fl (runTicks fl (take k rs) 0 + fl (rs ! k * 3))
               else runTicks fl (take k rs) 0)
            \<and> runTicks fl (take k rs) 0 \<le> runTicks fl (take (Suc k) rs) 0)
         \<and> (\<forall>k\<le>length rs. 0 \<le> runTicks fl (take k rs) 0 \<and> runTicks fl (take k rs) 0 \<le> 88)
         \<and> filter isTimer (issued st (handleSubmit fl rs out st)) =
             [SetInterval (length (effects st)) 200, ClearInterval (length (effects st))]
         \<and> loadingProgress (handleSubmit fl rs out st) =
             (if \<exists>r b. out = Resolved r \<and> ok r \<and> blob r = Some b then 100
              else runTicks fl rs 0)
         \<and> (loadingProgress (handleSubmit fl rs out st) = 100 \<longrightarrow>
               (\<exists>r. out = Resolved r \<and> ok r))"
proof -
  have t: "trim (description st) \<noteq> []"
    using assms(2) trim_empty_iff [of "description st"] by blast
  have pre: "0 \<le> runTicks fl (take k rs) 0 \<and> runTicks fl (take k rs) 0 \<le> 88
             \<and> fl (runTicks fl (take k rs) 0) = runTicks fl (take k rs) 0" for k
  proof -
    have "\<forall>r\<in>set (take k rs). 0 \<le> r \<and> r < 1"
      using assms(4) by (meson in_set_takeD)
    from runTicks_bounds [OF fl this, of 0] fl(3) show ?thesis by simp
  qed
  have step: "runTicks fl (take (Suc k) rs) 0 =
                (if runTicks fl (take k rs) 0 < 85
                 then fl (runTicks fl (take k rs) 0 + fl (rs ! k * 3))
                 else runTicks fl (take k rs) 0)
              \<and> runTicks fl (take k rs) 0 \<le> runTicks fl (take (Suc k) rs) 0"
    if "k < length rs" for k
  proof -
    from that have r: "0 \<le> rs ! k" "rs ! k < 1"
      using assms(4) by simp_all
    have s: "runTicks fl (take (Suc k) rs) 0 = tick fl (rs ! k) (runTicks fl (take k rs) 0)"
      using that by (simp add: take_Suc_conv_app_nth)
    from pre [of k]
    have q: "fl (runTicks fl (take k rs) 0) = runTicks fl (take k rs) 0"
      "0 \<le> runTicks fl (take k rs) 0" "runTicks fl (take k rs) 0 \<le> 88"
      by simp_all
    from tick_bounds [OF fl(1,3,4,5) q r]
    have "runTicks fl (take k rs) 0 \<le> tick fl (rs ! k) (runTicks fl (take k rs) 0)" by simp
    moreover have "tick fl (rs ! k) (runTicks fl (take k rs) 0) =
        (if runTicks fl (take k rs) 0 < 85
         then fl (runTicks fl (take k rs) 0 + fl (rs ! k * 3))
         else runTicks fl (take k rs) 0)"
      by (simp only: tick_def)
    ultimately show ?thesis
      unfolding s by (simp only: simp_thms)
  qed
  have bound: "0 \<le> runTicks fl (take k rs) 0 \<and> runTicks fl (take k rs) 0 \<le> 88" for k
    using pre [of k] by blast
  have all: "runTicks fl rs 0 \<le> 88"
    using pre [of "length rs"] by simp
  have timer: "filter isTimer (issued st (handleSubmit fl rs out st)) =
      [SetInterval (length (effects st)) 200, ClearInterval (length (effects st))]"
    using assms(1) t assms(3) by (rule handleSubmit_timer_calls)
  have prog: "loadingProgress (handleSubmit fl rs out st) =
             (if \<exists>r b. out = Resolved r \<and> ok r \<and> blob r = Some b then 100
              else runTicks fl rs 0)"
  proof (cases out rule: outcome_cases)
    case (failure e)
    then have n: "\<not> (\<exists>r b. out = Resolved r \<and> ok r \<and> blob r = Some b)" by auto
    have "loadingProgress (handleSubmit fl rs out st) = runTicks fl rs 0"
      by (simp add: handleSubmit_failure [OF assms(1) t assms(3) failure])
    then show ?thesis
      using n by (simp only: if_False)
  next
    case (success r b)
    then have y: "\<exists>r b. out = Resolved r \<and> ok r \<and> blob r = Some b" by blast
    have "loadingProgress (handleSubmit fl rs out st) = 100"
      using success(1) by (simp add: handleSubmit_success [OF assms(1) t assms(3) success(2,3)])
    then show ?thesis
      using y by (simp only: if_True)
  qed
  have only: "loadingProgress (handleSubmit fl rs out st) = 100 \<longrightarrow>
      (\<exists>r. out = Resolved r \<and> ok r)"
    using prog all by (auto split: if_splits)
  show ?thesis
    using step bound timer prog only by blast
qed

theorem progress_waits_for_response_witness:
  "loadingProgress
     (handleSubmit (\<lambda>x. x) [1/2, 9/10] Rejected (readyState (photo 640 480))) = 21/5
   \<and> loadingProgress
       (handleSubmit (\<lambda>x. x) [1/2, 9/10] (Resolved imageResponse) (readyState (photo 640 480)))
       = 100
   \<and> filter isTimer
       (effects (handleSubmit (\<lambda>x. x) [1/2, 9/10] Rejected (readyState (photo 640 480)))) =
       [SetInterval 0 200, ClearInterval 0]"
proof -
  let ?st = "readyState (photo 640 480)"
  have f: "selectedFile ?st = Some (photo 640 480)"
    by (simp add: readyState_def)
  have d: "\<not> (\<forall>c\<in>set (description ?st). isWhiteSpace c)"
    by (simp add: readyState_def js_def isWhiteSpace_def)
  have g: "selectedGender ?st \<noteq> []"
    by (simp add: readyState_def js_def)
  have r: "\<forall>r\<in>set [1/2, 9/10::real]. 0 \<le> r \<and> r < 1"
    by simp
  have m: "mono (\<lambda>x::real. x)"
    by (simp add: mono_def)
  have e: "effects ?st = []"
    by (simp add: readyState_def initialState_def)
  have "loadingProgress (handleSubmit (\<lambda>x. x) [1/2, 9/10] Rejected ?st) = 21/5
        \<and> filter isTimer (effects (handleSubmit (\<lambda>x. x) [1/2, 9/10] Rejected ?st)) =
            [SetInterval 0 200, ClearInterval 0]"
    using progress_waits_for_response [OF f d g r m, of Rejected] e
    by (simp add: tick_def issued_def)
  moreover have "loadingProgress
      (handleSubmit (\<lambda>x. x) [1/2, 9/10] (Resolved imageResponse) ?st) = 100"
    using progress_waits_for_response [OF f d g r m, of "Resolved imageResponse"]
    by (simp add: imageResponse_def ok_def)
  ultimately show ?thesis by blast
qed

text \<open>
  The progress passes 85. With \<open>Math.random()\<close> returning 15/16 every time and no
  response yet, the progress is 84.375 after 30 runs of the callback, still below 85,
  and the 31st run takes it to 87.1875, where a rejected request leaves it. All the
  numbers are doubles, so nothing is rounded.
\<close>

theorem progress_waits_for_response_counterexample:
  "(0::real) \<le> 15/16 \<and> (15/16::real) < 1
   \<and> runTicks (\<lambda>x. x) (replicate 30 (15/16)) 0 = 675/8
   \<and> (675/8::real) < 85
   \<and> loadingProgress
       (handleSubmit (\<lambda>x. x) (replicate 31 (15/16)) Rejected (readyState (photo 640 480)))
     = 1395/16
   \<and> (85::real) < 1395/16"
proof -
  let ?st = "readyState (photo 640 480)"
  have f: "selectedFile ?st = Some (photo 640 480)"
    by (simp add: readyState_def)
  have t: "trim (description ?st) \<noteq> []"
    by (simp add: readyState_def js_def trim_def isWhiteSpace_def)
  have g: "selectedGender ?st \<noteq> []"
    by (simp add: readyState_def js_def)
  have o: "Rejected = Rejected \<and> NetworkFailure = NetworkFailure
         \<or> (\<exists>r. Rejected = Resolved r \<and> \<not> ok r \<and> NetworkFailure = Error (errorMessageOf r))
         \<or> (\<exists>r. Rejected = Resolved r \<and> ok r \<and> blob r = None
                 \<and> NetworkFailure = NetworkFailure)"
    by blast
  have u: "replicate (numeral k) x = x # replicate (pred_numeral k) x" for k and x :: real
    by (simp add: numeral_eq_Suc)
  have a: "runTicks (\<lambda>x. x) (replicate 30 (15/16)) 0 = 675/8"
    by (simp add: tick_def u)
  have b: "runTicks (\<lambda>x. x) (replicate 31 (15/16)) 0 = 1395/16"
    by (simp add: tick_def u)
  have "loadingProgress (handleSubmit (\<lambda>x. x) (replicate 31 (15/16)) Rejected ?st) = 1395/16"
    unfolding handleSubmit_failure [OF f t g o] b by simp
  with a show ?thesis by simp
qed

section \<open>The progress timer\<close>

text \<open>
  C8. Whatever the outcome of a submission that passed validation (an ok response, a
  response that is not ok, a rejected \<open>fetch\<close> or a body that cannot be read), the
  calls \<open>handleSubmit\<close> makes to the timer functions are one \<open>setInterval\<close> and then
  one \<open>clearInterval\<close> of the timer it started; a submission that fails validation
  starts no timer.
\<close>

theorem progress_timer_cleared_once:
  "filter isTimer (issued st (handleSubmit fl rs out st)) =
     (if selectedFile st = None \<or> (\<forall>c\<in>set (description st). isWhiteSpace c)
         \<or> selectedGender st = []
      then []
      else [SetInterval (length (effects st)) 200, ClearInterval (length (effects st))])"
proof (cases "selectedFile st")
  case None
  then show ?thesis
    by (simp add: handleSubmit_no_file issued_def)
next
  case (Some f)
  then have present: "selectedFile st \<noteq> None" by simp
  have tr: "trim (description st) = [] \<longleftrightarrow> (\<forall>c\<in>set (description st). isWhiteSpace c)"
    by (rule trim_empty_iff)
  show ?thesis
  proof (cases "trim (description st) = []")
    case True
    show ?thesis
      using handleSubmit_no_description [OF present True, of fl rs out] tr True
      by (auto simp add: issued_def)
  next
    case t: False
    show ?thesis
    proof (cases "selectedGender st = []")
      case True
      show ?thesis
        using handleSubmit_no_gender [OF present t True, of fl rs out] True
        by (auto simp add: issued_def)
    next
      case g: False
      have valid: "\<not> (selectedFile st = None \<or> (\<forall>c\<in>set (description st). isWhiteSpace c)
                       \<or> selectedGender st = [])"
        using present t g tr by blast
      have "filter isTimer (issued st (handleSubmit fl rs out st)) =
              [SetInterval (length (effects st)) 200, ClearInterval (length (effects st))]"
      proof (cases out rule: outcome_cases)
        case (failure e)
        show ?thesis
          by (simp add: handleSubmit_failure [OF Some t g failure] issued_def)
      next
        case (success r b)
        show ?thesis
          unfolding success(1)
          by (simp add: handleSubmit_success [OF Some t g success(2,3)] issued_def
              split: option.splits)
      qed
      then show ?thesis
        using valid by (simp only: if_False)
    qed
  qed
qed

theorem progress_timer_cleared_once_witness:
  "filter isTimer (effects (handleSubmit (\<lambda>x. x) [] (Resolved imageResponse) (readyState (photo 640 480))))
     = [SetInterval 0 200, ClearInterval 0]
   \<and> filter isTimer (effects (handleSubmit (\<lambda>x. x) [] (Resolved htmlResponse) (readyState (photo 640 480))))
     = [SetInterval 0 200, ClearInterval 0]
   \<and> filter isTimer (effects (handleSubmit (\<lambda>x. x) [] Rejected (readyState (photo 640 480))))
     = [SetInterval 0 200, ClearInterval 0]
   \<and> filter isTimer (effects (handleSubmit (\<lambda>x. x) [] Rejected initialState)) = []"
proof -
  let ?st = "readyState (photo 640 480)"
  have v: "\<not> (selectedFile ?st = None \<or> (\<forall>c\<in>set (description ?st). isWhiteSpace c)
               \<or> selectedGender ?st = [])"
    by (simp add: readyState_def js_def isWhiteSpace_def)
  have e: "effects ?st = []"
    by (simp add: readyState_def initialState_def)
  have i: "selectedFile initialState = None" "effects initialState = []"
    by (simp_all add: initialState_def)
  show ?thesis
    using progress_timer_cleared_once [of ?st "\<lambda>x. x" "[]" "Resolved imageResponse"]
      progress_timer_cleared_once [of ?st "\<lambda>x. x" "[]" "Resolved htmlResponse"]
      progress_timer_cleared_once [of ?st "\<lambda>x. x" "[]" Rejected]
      progress_timer_cleared_once [of initialState "\<lambda>x. x" "[]" Rejected]
      v e i
    by (simp add: issued_def)
qed

section \<open>Responses that are not ok\<close>

text \<open>
  C7, as the code has it. For a response that is not ok, the value given to \<open>new Error\<close>
  is the \<open>detail\<close> of the JSON body if that is truthy, else its \<open>message\<close> if that is
  truthy, else the fixed text "Failed to process the sketch"; the status line
  "Server error: status statusText" is used only when the body cannot be read as JSON or
  is the JSON \<open>null\<close>. That value reaches the console and nothing else: the state after
  the submission, with its fixed notification "Failed to process the sketch. Please try
  again.", does not depend on the response.
\<close>

theorem handleSubmit_server_error:
  assumes "selectedFile st = Some f"
    and "\<not> (\<forall>c\<in>set (description st). isWhiteSpace c)"
    and "selectedGender st \<noteq> []"
    and "\<not> ok r"
  shows "handleSubmit fl rs (Resolved r) st =
           st\<lparr>errorMessage := [],
              notification :=
                Some \<lparr>kind = error,
                      message = js ''Failed to process the sketch. Please try again.''\<rparr>,
              isLoading := True,
              loadingProgress := runTicks fl rs 0,
              effects := effects st @
                [SetInterval (length (effects st)) 200,
                 Fetch (generateImage f (description st) (selectedGender st)),
                 ConsoleError (js ''Error processing sketch:'') (Error (errorMessageOf r)),
                 ClearInterval (length (effects st)),
                 SetTimeout 500]\<rparr>
         \<and> (json r = None \<or> json r = Some JNull \<longrightarrow>
              errorMessageOf r =
                JStr (js ''Server error: '' @ decimal (status r) @ js '' '' @ statusText r))
         \<and> (\<forall>errorData. json r = Some errorData \<and> errorData \<noteq> JNull \<longrightarrow>
              errorMessageOf r =
                (if truthy (getProp errorData (js ''detail''))
                 then getProp errorData (js ''detail'')
                 else if truthy (getProp errorData (js ''message''))
                 then getProp errorData (js ''message'')
                 else JStr (js ''Failed to process the sketch'')))"
proof -
  have t: "trim (description st) \<noteq> []"
    using assms(2) trim_empty_iff [of "description st"] by blast
  have o: "Resolved r = Rejected \<and> Error (errorMessageOf r) = NetworkFailure
         \<or> (\<exists>r'. Resolved r = Resolved r' \<and> \<not> ok r'
                 \<and> Error (errorMessageOf r) = Error (errorMessageOf r'))
         \<or> (\<exists>r'. Resolved r = Resolved r' \<and> ok r' \<and> blob r' = None
                 \<and> Error (errorMessageOf r) = NetworkFailure)"
    using assms(4) by blast
  have unparsed: "json r = None \<or> json r = Some JNull \<longrightarrow>
      errorMessageOf r =
        JStr (js ''Server error: '' @ decimal (status r) @ js '' '' @ statusText r)"
    by (auto simp add: errorMessageOf_def statusLine_def)
  have parsed: "errorMessageOf r =
      (if truthy (getProp errorData (js ''detail''))
       then getProp errorData (js ''detail'')
       else if truthy (getProp errorData (js ''message''))
       then getProp errorData (js ''message'')
       else JStr (js ''Failed to process the sketch''))"
    if "json r = Some errorData" "errorData \<noteq> JNull" for errorData
    using that by (cases errorData) (simp_all add: errorMessageOf_def or_js_def)
  show ?thesis
    using handleSubmit_failure [OF assms(1) t assms(3) o, of fl rs] unparsed parsed
    by blast
qed

theorem handleSubmit_server_error_witness:
  "filter isConsole
     (effects (handleSubmit (\<lambda>x. x) [] (Resolved detailResponse) (readyState (photo 640 480)))) =
     [ConsoleError (js ''Error processing sketch:'') (Error (JStr (js ''No face found'')))]
   \<and> notification (handleSubmit (\<lambda>x. x) [] (Resolved detailResponse) (readyState (photo 640 480))) =
       Some \<lparr>kind = error, message = js ''Failed to process the sketch. Please try again.''\<rparr>
   \<and> errorMessageOf htmlResponse = JStr (js ''Server error: 502 Bad Gateway'')"
proof -
  let ?st = "readyState (photo 640 480)"
  have f: "selectedFile ?st = Some (photo 640 480)"
    by (simp add: readyState_def)
  have d: "\<not> (\<forall>c\<in>set (description ?st). isWhiteSpace c)"
    by (simp add: readyState_def js_def isWhiteSpace_def)
  have g: "selectedGender ?st \<noteq> []"
    by (simp add: readyState_def js_def)
  have k: "\<not> ok detailResponse" "\<not> ok htmlResponse"
    by (simp_all add: detailResponse_def htmlResponse_def ok_def)
  have e: "effects ?st = []"
    by (simp add: readyState_def initialState_def)
  have j: "json detailResponse = Some (JObj [(js ''detail'', JStr (js ''No face found''))])"
    by (simp add: detailResponse_def)
  have m: "errorMessageOf detailResponse = JStr (js ''No face found'')"
    using handleSubmit_server_error [OF f d g k(1), of "\<lambda>x. x" "[]"] j
    by (simp add: js_def)
  have "errorMessageOf htmlResponse = JStr (js ''Server error: 502 Bad Gateway'')"
    using handleSubmit_server_error [OF f d g k(2), of "\<lambda>x. x" "[]"]
    by (simp add: htmlResponse_def js_def decimal.simps)
  moreover have "handleSubmit (\<lambda>x. x) [] (Resolved detailResponse) ?st =
      ?st\<lparr>errorMessage := [],
          notification :=
            Some \<lparr>kind = error,
                  message = js ''Failed to process the sketch. Please try again.''\<rparr>,
          isLoading := True,
          loadingProgress := 0,
          effects :=
            [SetInterval 0 200,
             Fetch (generateImage (photo 640 480) (description ?st) (selectedGender ?st)),
             ConsoleError (js ''Error processing sketch:'') (Error (JStr (js ''No face found''))),
             ClearInterval 0,
             SetTimeout 500]\<rparr>"
    using handleSubmit_server_error [OF f d g k(1), of "\<lambda>x. x" "[]"] e m by simp
  ultimately show ?thesis
    by simp
qed

text \<open>
  A response that is not ok and whose body is the JSON object with no members: it has
  neither \<open>detail\<close> nor \<open>message\<close>, and what is logged is the fixed text, not the
  status line.
\<close>

theorem handleSubmit_server_error_counterexample:
  "\<not> ok emptyObjectResponse
   \<and> json emptyObjectResponse = Some (JObj [])
   \<and> getProp (JObj []) (js ''detail'') = Undefined
   \<and> getProp (JObj []) (js ''message'') = Undefined
   \<and> filter isConsole
       (effects (handleSubmit (\<lambda>x. x) [] (Resolved emptyObjectResponse) (readyState (photo 640 480)))) =
       [ConsoleError (js ''Error processing sketch:'')
          (Error (JStr (js ''Failed to process the sketch'')))]
   \<and> statusLine emptyObjectResponse = js ''Server error: 500 Internal Server Error''
   \<and> JStr (js ''Failed to process the sketch'') \<noteq> JStr (statusLine emptyObjectResponse)"
proof -
  let ?st = "readyState (photo 640 480)"
  have f: "selectedFile ?st = Some (photo 640 480)"
    by (simp add: readyState_def)
  have t: "trim (description ?st) \<noteq> []"
    by (simp add: readyState_def js_def trim_def isWhiteSpace_def)
  have g: "selectedGender ?st \<noteq> []"
    by (simp add: readyState_def js_def)
  have k: "\<not> ok emptyObjectResponse"
    by (simp add: emptyObjectResponse_def ok_def)
  have e: "effects ?st = []"
    by (simp add: readyState_def initialState_def)
  have m: "errorMessageOf emptyObjectResponse = JStr (js ''Failed to process the sketch'')"
    by (simp add: errorMessageOf_def emptyObjectResponse_def or_js_def)
  have o: "Resolved emptyObjectResponse = Rejected
             \<and> Error (errorMessageOf emptyObjectResponse) = NetworkFailure
         \<or> (\<exists>r. Resolved emptyObjectResponse = Resolved r \<and> \<not> ok r
                 \<and> Error (errorMessageOf emptyObjectResponse) = Error (errorMessageOf r))
         \<or> (\<exists>r. Resolved emptyObjectResponse = Resolved r \<and> ok r \<and> blob r = None
                 \<and> Error (errorMessageOf emptyObjectResponse) = NetworkFailure)"
    using k by blast
  have c: "filter isConsole (effects (handleSubmit (\<lambda>x. x) [] (Resolved emptyObjectResponse) ?st)) =
       [ConsoleError (js ''Error processing sketch:'')
          (Error (JStr (js ''Failed to process the sketch'')))]"
    by (simp add: handleSubmit_failure [OF f t g o] e m)
  have s: "statusLine emptyObjectResponse = js ''Server error: 500 Internal Server Error''"
    by (simp add: statusLine_def emptyObjectResponse_def js_def decimal.simps)
  have n: "JStr (js ''Failed to process the sketch'') \<noteq> JStr (statusLine emptyObjectResponse)"
    by (simp add: s js_def)
  show ?thesis
    using k c s n by (simp add: emptyObjectResponse_def)
qed

section \<open>Object URLs of the sketch\<close>

text \<open>
  The URL of a result is released: after a successful submission and the
  "Create New Image" button no object URL is live.
\<close>

lemma createNewImage_releases_result:
  "live (effects (createNewImage
      (handleSubmit (\<lambda>x. x) [] (Resolved imageResponse) (readyState (photo 640 480))))) = []"
proof -
  let ?st = "readyState (photo 640 480)"
  have f: "selectedFile ?st = Some (photo 640 480)"
    by (simp add: readyState_def)
  have t: "trim (description ?st) \<noteq> []"
    by (simp add: readyState_def js_def trim_def isWhiteSpace_def)
  have g: "selectedGender ?st \<noteq> []"
    by (simp add: readyState_def js_def)
  have k: "ok imageResponse" "blob imageResponse = Some [137, 80, 78, 71]"
    by (simp_all add: imageResponse_def ok_def)
  have e: "effects ?st = []" "result ?st = None"
    by (simp_all add: readyState_def initialState_def)
  show ?thesis
    by (simp add: handleSubmit_success [OF f t g k] e createNewImage_def resultCleanup_def
        log_def live_def)
qed

text \<open>
  C5 fails on the code. A sketch is selected and the component is rendered twice; the
  image is then removed and the component unmounted. Each render created an object URL
  for the sketch, no call revoked either, and both are live when no state refers to
  the sketch any more.
\<close>

theorem render_leaks_sketch_urls:
  "selectedFile
     (unmount (removeImage (render (render
        (processImage canvasRuntime (photo 640 480) initialState))))) = None
   \<and> live (effects
       (unmount (removeImage (render (render
          (processImage canvasRuntime (photo 640 480) initialState)))))) =
     [(2, FileBlob \<lparr>name = js ''sketch.jpg'', type = js ''image/jpeg'', lastModified = 1,
                     image = Some (640, 480)\<rparr>),
      (3, FileBlob \<lparr>name = js ''sketch.jpg'', type = js ''image/jpeg'', lastModified = 1,
                     image = Some (640, 480)\<rparr>)]"
  by (simp add: unmount_def removeImage_def render_def processImage_def canvasRuntime_def
      photo_def initialState_def Let_def log_def fresh_def setNotification_def live_def
      resultCleanup_def
      canvasDims_def MAX_WIDTH_def MAX_HEIGHT_def)

end
